theory Spec2Isabelle
  imports Main
begin

section \<open>Book Suggestion Request: the workflow hooks of the document class\<close>

text \<open>
  The source is one Python class, \<^verbatim>\<open>BookSuggestionRequest(Document)\<close>, whose methods
  are lifecycle hooks called by the host framework (Frappe). The class reads and writes
  a few fields of the document and calls the host for everything that persists: the
  settings record, access grants (DocShare) and tasks (ToDo).

  The embedding passes state explicitly. Every call into the host is a field of a record
  of operations (\<open>frappe\<close> below), so that the hooks are defined for any host, including
  one whose operations raise. A method that may raise returns a pair: the outcome
  (\<open>Inl\<close> the exception, \<open>Inr\<close> the normal return) and the state as it is at that
  moment, because in Python the writes made before an exception are not undone by it.
  Python forbids nothing about names that start with an underscore; here the methods
  \<^verbatim>\<open>_handle_workflow\<close>, \<^verbatim>\<open>_share_and_assign\<close> and \<^verbatim>\<open>_remove_share_permission\<close>
  drop it, and the attribute \<^verbatim>\<open>_previous_workflow_state\<close> likewise.
\<close>

subsection \<open>Exceptions\<close>

text \<open>
  The exceptions the hooks can meet. All of them are subclasses of Python's
  \<^verbatim>\<open>Exception\<close> (the framework's errors derive from \<^verbatim>\<open>frappe.ValidationError\<close> or
  from \<^verbatim>\<open>Exception\<close>), which is what \<^verbatim>\<open>except Exception\<close> catches.
  \<^verbatim>\<open>TypeError\<close> is what Python raises when a call passes a keyword argument that the
  function called does not have. \<open>OtherException\<close> stands for any error that is none
  of the named ones.
\<close>

datatype exn =
    DoesNotExistError
  | PermissionError
  | ValidationError string
  | TypeError
  | OtherException string

subsection \<open>Documents\<close>

text \<open>
  A Link field holds a user id or nothing; Python tests it with \<^verbatim>\<open>if user\<close>, which is
  false for \<^verbatim>\<open>None\<close> and for the empty string.
\<close>

definition truthy :: "string option \<Rightarrow> bool" where
  "truthy v = (case v of None \<Rightarrow> False | Some s \<Rightarrow> s \<noteq> [])"

text \<open>
  The request document. \<open>previous_workflow_state\<close> is the transient attribute set by
  \<^verbatim>\<open>before_save\<close>: \<open>None\<close> when the attribute does not exist (\<^verbatim>\<open>hasattr\<close> is false),
  \<open>Some v\<close> when it holds \<open>v\<close> (and \<open>v\<close> itself may be Python's \<^verbatim>\<open>None\<close>).
  \<open>islocal\<close> is what \<^verbatim>\<open>self.is_new()\<close> reads; \<open>docstatus\<close> is 0 for a draft and
  1 for a submitted document, and no hook of the class reads it.
\<close>

record request =
  doctype :: string
  name :: string
  islocal :: bool
  docstatus :: int
  workflow_state :: "string option"
  librarian :: "string option"
  hod :: "string option"
  library_convener :: "string option"
  previous_workflow_state :: "string option option"

text \<open>The single settings record, with the two fields the hook reads.\<close>

record library_settings =
  default_librarian :: "string option"
  default_library_convener :: "string option"

text \<open>A task (ToDo) with the fields the class sets or filters on.\<close>

record todo =
  allocated_to :: string
  reference_type :: string
  reference_name :: string
  description :: string
  status :: string

text \<open>
  \<^verbatim>\<open>self.get(fieldname)\<close>: the value of a field by its name, \<^verbatim>\<open>None\<close> for a name
  the document does not have.
\<close>

definition get :: "request \<Rightarrow> string \<Rightarrow> string option" where
  "get self fieldname =
     (if fieldname = ''librarian'' then librarian self
      else if fieldname = ''hod'' then hod self
      else if fieldname = ''library_convener'' then library_convener self
      else if fieldname = ''workflow_state'' then workflow_state self
      else if fieldname = ''doctype'' then Some (doctype self)
      else if fieldname = ''name'' then Some (name self)
      else None)"

text \<open>Python's \<^verbatim>\<open>str\<close> of an optional string, as an f-string formats it.\<close>

definition py_str :: "string option \<Rightarrow> string" where
  "py_str v = (case v of None \<Rightarrow> ''None'' | Some s \<Rightarrow> s)"

subsection \<open>The configuration table\<close>

text \<open>
  One entry of \<^verbatim>\<open>WORKFLOW_CONFIG\<close>. A key the entry does not have, or has with the value
  \<^verbatim>\<open>None\<close>, reads as \<open>None\<close>, which is what \<^verbatim>\<open>dict.get\<close> returns in both cases.
  A permission set is a dictionary from the flag's name to 0 or 1.
\<close>

record state_config =
  approver_field :: "string option"
  task_description :: "string option"
  permissions :: "(string \<times> int) list option"
  previous_approver_field :: "string option"

definition WORKFLOW_CONFIG :: "(string \<times> state_config) list" where
  "WORKFLOW_CONFIG =
     [(''Pending for Duplication Check'',
         \<lparr>approver_field = Some ''librarian'',
          task_description = Some ''Duplication Check'',
          permissions = Some [(''read'', 1), (''write'', 1), (''submit'', 1), (''share'', 1)],
          previous_approver_field = None\<rparr>),
      (''Pending for HOD Approval'',
         \<lparr>approver_field = Some ''hod'',
          task_description = Some ''HOD Approval'',
          permissions = Some [(''read'', 1), (''write'', 0), (''submit'', 1), (''share'', 1)],
          previous_approver_field = Some ''librarian''\<rparr>),
      (''Pending for Library Convener Approval'',
         \<lparr>approver_field = Some ''library_convener'',
          task_description = Some ''Library Convener Approval'',
          permissions = Some [(''read'', 1), (''write'', 0), (''submit'', 1), (''share'', 1)],
          previous_approver_field = Some ''hod''\<rparr>),
      (''Approved'',
         \<lparr>approver_field = None, task_description = None, permissions = None,
          previous_approver_field = Some ''library_convener''\<rparr>),
      (''Rejected'',
         \<lparr>approver_field = None, task_description = None, permissions = None,
          previous_approver_field = Some ''library_convener''\<rparr>)]"

text \<open>\<^verbatim>\<open>self.WORKFLOW_CONFIG.get(self.workflow_state)\<close>; the state may be \<^verbatim>\<open>None\<close>.\<close>

definition config_get :: "string option \<Rightarrow> state_config option" where
  "config_get st = (case st of None \<Rightarrow> None | Some s \<Rightarrow> map_of WORKFLOW_CONFIG s)"

text \<open>\<^verbatim>\<open>permissions.get(key, 0)\<close>.\<close>

definition perm_get :: "(string \<times> int) list \<Rightarrow> string \<Rightarrow> int" where
  "perm_get ps k = (case map_of ps k of None \<Rightarrow> 0 | Some v \<Rightarrow> v)"

subsection \<open>The host framework, as a record of operations\<close>

text \<open>
  What the class calls, over any store \<open>'db\<close>. A task's name is the identifier the host
  gives it; in the framework it is a non-empty string, so a name that \<open>db_exists\<close>
  returns always counts as true, whatever identifier stands for it here.
  A filter is the dictionary of field names and values passed to the query.
  Reads return a value or raise; writes return the outcome and the store after them.
  \<^item> \<open>get_single\<close>: \<^verbatim>\<open>frappe.get_single(doctype)\<close>;
  \<^item> \<open>get_doc\<close>: \<^verbatim>\<open>frappe.get_doc(doctype, name)\<close> of a request;
  \<^item> \<open>share_add\<close>: \<^verbatim>\<open>frappe.share.add(doctype, name, user, read, write, submit, share)\<close>;
  \<^item> \<open>share_remove\<close>: \<^verbatim>\<open>frappe.share.remove(doctype, name, user, **kwargs)\<close>, the
    three positional arguments and then the keyword arguments of the call, each with
    its name and the boolean passed under it;
  \<^item> \<open>db_exists\<close>: \<^verbatim>\<open>frappe.db.exists("ToDo", filters)\<close>, a name or \<^verbatim>\<open>None\<close>;
  \<^item> \<open>get_all\<close>: \<^verbatim>\<open>frappe.get_all("ToDo", filters)\<close>, the names of the matching tasks;
  \<^item> \<open>get_doc_todo\<close>: \<^verbatim>\<open>frappe.get_doc("ToDo", name)\<close>;
  \<^item> \<open>todo_insert\<close>, \<open>todo_save\<close>: \<^verbatim>\<open>insert(ignore_permissions=True)\<close> and
    \<^verbatim>\<open>save(ignore_permissions=True)\<close> of a task document.
\<close>

type_synonym todo_name = nat
type_synonym filters = "(string \<times> string) list"
type_synonym kwargs = "(string \<times> bool) list"

record 'db frappe =
  get_single :: "string \<Rightarrow> 'db \<Rightarrow> exn + library_settings"
  get_doc :: "string \<Rightarrow> string \<Rightarrow> 'db \<Rightarrow> exn + request"
  share_add :: "string \<Rightarrow> string \<Rightarrow> string \<Rightarrow> int \<Rightarrow> int \<Rightarrow> int \<Rightarrow> int \<Rightarrow> 'db \<Rightarrow> (exn + unit) \<times> 'db"
  share_remove :: "string \<Rightarrow> string \<Rightarrow> string \<Rightarrow> kwargs \<Rightarrow> 'db \<Rightarrow> (exn + unit) \<times> 'db"
  db_exists :: "filters \<Rightarrow> 'db \<Rightarrow> exn + todo_name option"
  get_all :: "filters \<Rightarrow> 'db \<Rightarrow> exn + todo_name list"
  get_doc_todo :: "todo_name \<Rightarrow> 'db \<Rightarrow> exn + todo"
  todo_insert :: "todo \<Rightarrow> 'db \<Rightarrow> (exn + unit) \<times> 'db"
  todo_save :: "todo_name \<Rightarrow> todo \<Rightarrow> 'db \<Rightarrow> (exn + unit) \<times> 'db"

text \<open>\<^verbatim>\<open>frappe.throw(msg)\<close> raises \<^verbatim>\<open>frappe.ValidationError\<close> with the message.\<close>

definition throw :: "string \<Rightarrow> exn" where
  "throw msg = ValidationError msg"

subsection \<open>The hooks\<close>

text \<open>
  \<^verbatim>\<open>before_validate\<close>: the two assignments happen only after \<^verbatim>\<open>get_single\<close> has
  returned; \<^verbatim>\<open>DoesNotExistError\<close> is turned into the thrown message, any other
  exception leaves the \<^verbatim>\<open>try\<close> as it is.
\<close>

definition before_validate :: "'db frappe \<Rightarrow> request \<Rightarrow> 'db \<Rightarrow> (exn + unit) \<times> request" where
  "before_validate fw self db =
     (case get_single fw ''Library Settings'' db of
        Inr settings \<Rightarrow>
          (Inr (), self\<lparr>librarian := default_librarian settings,
                         library_convener := default_library_convener settings\<rparr>)
      | Inl DoesNotExistError \<Rightarrow>
          (Inl (throw ''Please configure 'Library Settings' first.''), self)
      | Inl e \<Rightarrow> (Inl e, self))"

text \<open>\<^verbatim>\<open>before_save\<close>: the snapshot of the stored state, \<^verbatim>\<open>None\<close> for a new document.\<close>

definition before_save :: "'db frappe \<Rightarrow> request \<Rightarrow> 'db \<Rightarrow> (exn + unit) \<times> request" where
  "before_save fw self db =
     (if \<not> islocal self then
        (case get_doc fw (doctype self) (name self) db of
           Inl e \<Rightarrow> (Inl e, self)
         | Inr current_doc \<Rightarrow>
             (Inr (), self\<lparr>previous_workflow_state := Some (workflow_state current_doc)\<rparr>))
      else (Inr (), self\<lparr>previous_workflow_state := Some None\<rparr>))"

text \<open>
  \<^verbatim>\<open>_share_and_assign\<close>: the grant, then the existence check, then the new task. Nothing
  is caught here, so an exception of the host ends the method where it is raised.
\<close>

definition share_and_assign ::
  "'db frappe \<Rightarrow> request \<Rightarrow> string option \<Rightarrow> string option \<Rightarrow> (string \<times> int) list \<Rightarrow> 'db
     \<Rightarrow> (exn + unit) \<times> 'db" where
  "share_and_assign fw self user task_desc perms db =
     (case user of
        None \<Rightarrow> (Inr (), db)
      | Some u \<Rightarrow>
          if u = [] then (Inr (), db)
          else
            (case share_add fw (doctype self) (name self) u
                    (perm_get perms ''read'') (perm_get perms ''write'')
                    (perm_get perms ''submit'') (perm_get perms ''share'') db of
               (Inl e, db1) \<Rightarrow> (Inl e, db1)
             | (Inr _, db1) \<Rightarrow>
                 (case db_exists fw
                         [(''reference_type'', doctype self), (''reference_name'', name self),
                          (''allocated_to'', u), (''status'', ''Open'')] db1 of
                    Inl e \<Rightarrow> (Inl e, db1)
                  | Inr (Some existing_todo) \<Rightarrow> (Inr (), db1)
                  | Inr None \<Rightarrow>
                      todo_insert fw
                        \<lparr>allocated_to = u,
                         reference_type = doctype self,
                         reference_name = name self,
                         description =
                           ''Please review for '' @ py_str task_desc @ '': '' @ name self,
                         status = ''Open''\<rparr> db1)))"

text \<open>
  The body of the \<^verbatim>\<open>for\<close> loop of \<^verbatim>\<open>_remove_share_permission\<close>, over the names the
  query returned: load the task, set its status, save it; an exception ends the loop.
\<close>

fun close_todos :: "'db frappe \<Rightarrow> todo_name list \<Rightarrow> 'db \<Rightarrow> (exn + unit) \<times> 'db" where
  "close_todos fw [] db = (Inr (), db)"
| "close_todos fw (n # ns) db =
     (case get_doc_todo fw n db of
        Inl e \<Rightarrow> (Inl e, db)
      | Inr todo_doc \<Rightarrow>
          (case todo_save fw n (todo_doc\<lparr>status := ''Closed''\<rparr>) db of
             (Inl e, db1) \<Rightarrow> (Inl e, db1)
           | (Inr _, db1) \<Rightarrow> close_todos fw ns db1))"

text \<open>
  The \<^verbatim>\<open>try\<close> block of \<^verbatim>\<open>_remove_share_permission\<close>. The revoke is called as
  \<^verbatim>\<open>frappe.share.remove(self.doctype, self.name, user, ignore_permissions=True)\<close>.
\<close>

definition remove_share_try :: "'db frappe \<Rightarrow> request \<Rightarrow> string \<Rightarrow> 'db \<Rightarrow> (exn + unit) \<times> 'db" where
  "remove_share_try fw self u db =
     (case share_remove fw (doctype self) (name self) u [(''ignore_permissions'', True)] db of
        (Inl e, db1) \<Rightarrow> (Inl e, db1)
      | (Inr _, db1) \<Rightarrow>
          (case get_all fw
                  [(''reference_type'', doctype self), (''reference_name'', name self),
                   (''allocated_to'', u), (''status'', ''Open'')] db1 of
             Inl e \<Rightarrow> (Inl e, db1)
           | Inr open_todos \<Rightarrow> close_todos fw open_todos db1))"

text \<open>
  \<^verbatim>\<open>_remove_share_permission\<close>: \<^verbatim>\<open>except Exception: pass\<close> turns every exception of
  the block into a normal return; the writes made before it stay.
\<close>

definition remove_share_permission ::
  "'db frappe \<Rightarrow> request \<Rightarrow> string option \<Rightarrow> 'db \<Rightarrow> (exn + unit) \<times> 'db" where
  "remove_share_permission fw self user db =
     (case user of
        None \<Rightarrow> (Inr (), db)
      | Some u \<Rightarrow>
          if u = [] then (Inr (), db)
          else
            (case remove_share_try fw self u db of
               (Inl e, db1) \<Rightarrow> (Inr (), db1)
             | (Inr _, db1) \<Rightarrow> (Inr (), db1)))"

text \<open>
  \<^verbatim>\<open>_handle_workflow\<close>: the guard on the snapshot, the lookup, the revocation for the
  previous approver, the grant for the next one. The document is only read.
\<close>

definition handle_workflow :: "'db frappe \<Rightarrow> request \<Rightarrow> 'db \<Rightarrow> (exn + unit) \<times> 'db" where
  "handle_workflow fw self db =
     (if (case previous_workflow_state self of
            None \<Rightarrow> False
          | Some prev \<Rightarrow> prev = workflow_state self)
      then (Inr (), db)
      else
        (case config_get (workflow_state self) of
           None \<Rightarrow> (Inr (), db)
         | Some cfg \<Rightarrow>
             (case (case previous_approver_field cfg of
                      None \<Rightarrow> (Inr (), db)
                    | Some prev_approver_field \<Rightarrow>
                        if prev_approver_field = [] then (Inr (), db)
                        else
                          (let prev_user = get self prev_approver_field
                           in if truthy prev_user
                              then remove_share_permission fw self prev_user db
                              else (Inr (), db))) of
                (Inl e, db1) \<Rightarrow> (Inl e, db1)
              | (Inr _, db1) \<Rightarrow>
                  (case approver_field cfg of
                     None \<Rightarrow> (Inr (), db1)
                   | Some next_approver_field \<Rightarrow>
                       if next_approver_field = [] then (Inr (), db1)
                       else
                         (let next_user = get self next_approver_field;
                              perms = (case permissions cfg of
                                         None \<Rightarrow> [(''read'', 1)]
                                       | Some p \<Rightarrow> p)
                          in if truthy next_user
                             then share_and_assign fw self next_user (task_description cfg) perms db1
                             else (Inr (), db1))))))"

text \<open>\<^verbatim>\<open>on_submit\<close> and \<^verbatim>\<open>on_update_after_submit\<close> both call the dispatch.\<close>

definition on_submit :: "'db frappe \<Rightarrow> request \<Rightarrow> 'db \<Rightarrow> (exn + unit) \<times> 'db" where
  "on_submit fw self db = handle_workflow fw self db"

definition on_update_after_submit :: "'db frappe \<Rightarrow> request \<Rightarrow> 'db \<Rightarrow> (exn + unit) \<times> 'db" where
  "on_update_after_submit fw self db = handle_workflow fw self db"

subsection \<open>A reference host\<close>

text \<open>
  Modelled from the spec: the host framework's store and its operations (the settings
  record, \<^verbatim>\<open>frappe.share\<close>, \<^verbatim>\<open>frappe.db\<close> and the ToDo documents) are not part of the
  repository's source. The spec describes them as a generic grant operation taking
  (document type, document id, user, four flags), a revoke operation with the same key
  that tolerates a user who is not shared with, an existence query, and create and
  update operations on the task entity keyed by (type, id, user, status). The revoke
  takes the key and nothing else that the spec names; the framework's function is
  \<^verbatim>\<open>remove(doctype, name, user, flags=None)\<close>. A call that passes a keyword argument
  the function does not have raises \<^verbatim>\<open>TypeError\<close> before the function runs, as every
  Python call does, so the revoke below takes the names of its keyword parameters and
  checks the call against them. The store
  below holds the settings record if there is one, the stored requests, the grants by
  (document type, document id, user), and the table of tasks in insertion order; a
  task's name is its row number, which is unique and never reused, since nothing here
  deletes a task. The four flags of a grant are the fields \<^verbatim>\<open>read\<close>, \<^verbatim>\<open>write\<close>,
  \<^verbatim>\<open>submit\<close> and \<^verbatim>\<open>share\<close> of a DocShare.
\<close>

record docshare =
  read_perm :: int
  write_perm :: int
  submit_perm :: int
  share_perm :: int

record store =
  settings :: "library_settings option"
  requests :: "string \<times> string \<Rightarrow> request option"
  shares :: "string \<times> string \<times> string \<Rightarrow> docshare option"
  todos :: "todo list"

definition todo_field :: "todo \<Rightarrow> string \<Rightarrow> string option" where
  "todo_field t k =
     (if k = ''allocated_to'' then Some (allocated_to t)
      else if k = ''reference_type'' then Some (reference_type t)
      else if k = ''reference_name'' then Some (reference_name t)
      else if k = ''description'' then Some (description t)
      else if k = ''status'' then Some (status t)
      else None)"

text \<open>A task matches a filter when each field named in it has the value given.\<close>

definition matches :: "filters \<Rightarrow> todo \<Rightarrow> bool" where
  "matches fs t = list_all (\<lambda>(k, v). todo_field t k = Some v) fs"

definition matching :: "filters \<Rightarrow> store \<Rightarrow> todo_name list" where
  "matching fs db = filter (\<lambda>i. matches fs (todos db ! i)) [0..<length (todos db)]"

definition host_get_single :: "string \<Rightarrow> store \<Rightarrow> exn + library_settings" where
  "host_get_single dt db =
     (if dt = ''Library Settings''
      then (case settings db of None \<Rightarrow> Inl DoesNotExistError | Some s \<Rightarrow> Inr s)
      else Inl DoesNotExistError)"

definition host_get_doc :: "string \<Rightarrow> string \<Rightarrow> store \<Rightarrow> exn + request" where
  "host_get_doc dt n db =
     (case requests db (dt, n) of None \<Rightarrow> Inl DoesNotExistError | Some d \<Rightarrow> Inr d)"

definition host_share_add ::
  "string \<Rightarrow> string \<Rightarrow> string \<Rightarrow> int \<Rightarrow> int \<Rightarrow> int \<Rightarrow> int \<Rightarrow> store \<Rightarrow> (exn + unit) \<times> store" where
  "host_share_add dt n u r w s sh db =
     (Inr (), db\<lparr>shares := (shares db)((dt, n, u) \<mapsto>
                 \<lparr>read_perm = r, write_perm = w, submit_perm = s, share_perm = sh\<rparr>)\<rparr>)"

definition host_share_remove ::
  "string list \<Rightarrow> string \<Rightarrow> string \<Rightarrow> string \<Rightarrow> kwargs \<Rightarrow> store \<Rightarrow> (exn + unit) \<times> store" where
  "host_share_remove params dt n u kw db =
     (if list_all (\<lambda>(k, v). k \<in> set params) kw
      then (Inr (), db\<lparr>shares := (shares db)((dt, n, u) := None)\<rparr>)
      else (Inl TypeError, db))"

definition host_db_exists :: "filters \<Rightarrow> store \<Rightarrow> exn + todo_name option" where
  "host_db_exists fs db = Inr (case matching fs db of [] \<Rightarrow> None | i # _ \<Rightarrow> Some i)"

definition host_get_all :: "filters \<Rightarrow> store \<Rightarrow> exn + todo_name list" where
  "host_get_all fs db = Inr (matching fs db)"

definition host_get_doc_todo :: "todo_name \<Rightarrow> store \<Rightarrow> exn + todo" where
  "host_get_doc_todo i db =
     (if i < length (todos db) then Inr (todos db ! i) else Inl DoesNotExistError)"

definition host_todo_insert :: "todo \<Rightarrow> store \<Rightarrow> (exn + unit) \<times> store" where
  "host_todo_insert t db = (Inr (), db\<lparr>todos := todos db @ [t]\<rparr>)"

definition host_todo_save :: "todo_name \<Rightarrow> todo \<Rightarrow> store \<Rightarrow> (exn + unit) \<times> store" where
  "host_todo_save i t db =
     (if i < length (todos db) then (Inr (), db\<lparr>todos := (todos db)[i := t]\<rparr>)
      else (Inl DoesNotExistError, db))"

text \<open>The host whose revoke has the keyword parameters \<open>params\<close>.\<close>

definition host_of :: "string list \<Rightarrow> store frappe" where
  "host_of params =
     \<lparr>get_single = host_get_single,
      get_doc = host_get_doc,
      share_add = host_share_add,
      share_remove = host_share_remove params,
      db_exists = host_db_exists,
      get_all = host_get_all,
      get_doc_todo = host_get_doc_todo,
      todo_insert = host_todo_insert,
      todo_save = host_todo_save\<rparr>"

text \<open>
  The reference host: the revoke has the one keyword parameter \<^verbatim>\<open>flags\<close>. Beside it,
  the host the call of the source is written for, whose revoke would also take
  \<^verbatim>\<open>ignore_permissions\<close>.
\<close>

definition host :: "store frappe" where
  "host = host_of [''flags'']"

definition accepting_host :: "store frappe" where
  "accepting_host = host_of [''flags'', ''ignore_permissions'']"

subsection \<open>The spec's words for the two steps\<close>

text \<open>
  The spec: "Find all Open Tasks for (document, U\_prev); set each to Closed". A task is
  an Open Task for (document, user) when its reference is the document, it is allocated
  to the user and its status is Open.
\<close>

definition open_for :: "string \<Rightarrow> string \<Rightarrow> string \<Rightarrow> todo \<Rightarrow> bool" where
  "open_for dt n u t =
     (reference_type t = dt \<and> reference_name t = n \<and> allocated_to t = u \<and> status t = ''Open'')"

definition close_open_tasks :: "string \<Rightarrow> string \<Rightarrow> string \<Rightarrow> todo list \<Rightarrow> todo list" where
  "close_open_tasks dt n u ts =
     map (\<lambda>t. if open_for dt n u t then t\<lparr>status := ''Closed''\<rparr> else t) ts"

text \<open>
  The spec's invariant: at most one Open Task per (document, user) pair. The pairs of
  the Open tasks, read off the table in order, have no repetition.
\<close>

definition task_key :: "todo \<Rightarrow> string \<times> string \<times> string" where
  "task_key t = (reference_type t, reference_name t, allocated_to t)"

definition one_open_task :: "todo list \<Rightarrow> bool" where
  "one_open_task ts = distinct (map task_key (filter (\<lambda>t. status t = ''Open'') ts))"

text \<open>A sequence of dispatches, one per document, each on the store the last one left.\<close>

fun dispatch_all :: "store frappe \<Rightarrow> request list \<Rightarrow> store \<Rightarrow> store" where
  "dispatch_all fw [] db = db"
| "dispatch_all fw (d # ds) db = dispatch_all fw ds (snd (handle_workflow fw d db))"

subsection \<open>Concrete inputs\<close>

text \<open>
  A submitted request that has just moved to the second approval state, and a store in
  which the request is still in the first state and the librarian holds the grant and
  the Open task of that state.
\<close>

definition demo_request :: request where
  "demo_request =
     \<lparr>doctype = ''Book Suggestion Request'', name = ''BSR-0001'', islocal = False,
      docstatus = 1,
      workflow_state = Some ''Pending for HOD Approval'',
      librarian = Some ''librarian@lib.in'', hod = Some ''hod@lib.in'',
      library_convener = Some ''convener@lib.in'',
      previous_workflow_state = Some (Some ''Pending for Duplication Check'')\<rparr>"

definition demo_task :: todo where
  "demo_task =
     \<lparr>allocated_to = ''librarian@lib.in'', reference_type = ''Book Suggestion Request'',
      reference_name = ''BSR-0001'',
      description = ''Please review for Duplication Check: BSR-0001'', status = ''Open''\<rparr>"

definition demo_store :: store where
  "demo_store =
     \<lparr>settings = Some \<lparr>default_librarian = Some ''librarian@lib.in'',
                        default_library_convener = Some ''convener@lib.in''\<rparr>,
      requests = Map.empty((''Book Suggestion Request'', ''BSR-0001'') \<mapsto>
                   demo_request\<lparr>workflow_state := Some ''Pending for Duplication Check'',
                     previous_workflow_state := None\<rparr>),
      shares = Map.empty((''Book Suggestion Request'', ''BSR-0001'', ''librarian@lib.in'') \<mapsto>
                 \<lparr>read_perm = 1, write_perm = 1, submit_perm = 1, share_perm = 1\<rparr>),
      todos = [demo_task]\<rparr>"

definition other_task :: todo where
  "other_task =
     \<lparr>allocated_to = ''hod@lib.in'', reference_type = ''Book Suggestion Request'',
      reference_name = ''BSR-0001'',
      description = ''Please review for HOD Approval: BSR-0001'', status = ''Open''\<rparr>"

text \<open>The same store once the request has been saved in its second state.\<close>

definition resaved_store :: store where
  "resaved_store =
     demo_store\<lparr>requests := Map.empty((''Book Suggestion Request'', ''BSR-0001'') \<mapsto>
                   demo_request\<lparr>previous_workflow_state := None\<rparr>)\<rparr>"

text \<open>A host on which every operation raises and writes nothing.\<close>

definition raising_host :: "store frappe" where
  "raising_host =
     \<lparr>get_single = (\<lambda>dt db. Inl DoesNotExistError),
      get_doc = (\<lambda>dt n db. Inl DoesNotExistError),
      share_add = (\<lambda>dt n u r w s sh db. (Inl PermissionError, db)),
      share_remove = (\<lambda>dt n u kw db. (Inl PermissionError, db)),
      db_exists = (\<lambda>fs db. Inl (OtherException ''database is gone'')),
      get_all = (\<lambda>fs db. Inl (OtherException ''database is gone'')),
      get_doc_todo = (\<lambda>i db. Inl DoesNotExistError),
      todo_insert = (\<lambda>t db. (Inl (ValidationError ''mandatory field missing''), db)),
      todo_save = (\<lambda>i t db. (Inl PermissionError, db))\<rparr>"

text \<open>
  A host that removes the grant and finds the tasks, and then fails to load them: the
  accepting host with \<^verbatim>\<open>get_doc\<close> of a task raising.
\<close>

definition half_host :: "store frappe" where
  "half_host = accepting_host\<lparr>get_doc_todo := (\<lambda>i db. Inl DoesNotExistError)\<rparr>"

text \<open>
  A request that has just been rejected, and a store in which the convener holds the
  grant and the Open task of the third approval state.
\<close>

definition rejected_request :: request where
  "rejected_request =
     demo_request\<lparr>workflow_state := Some ''Rejected'',
        previous_workflow_state := Some (Some ''Pending for Library Convener Approval'')\<rparr>"

definition convener_task :: todo where
  "convener_task =
     \<lparr>allocated_to = ''convener@lib.in'', reference_type = ''Book Suggestion Request'',
      reference_name = ''BSR-0001'',
      description = ''Please review for Library Convener Approval: BSR-0001'',
      status = ''Open''\<rparr>"

definition convener_store :: store where
  "convener_store =
     demo_store\<lparr>shares := Map.empty((''Book Suggestion Request'', ''BSR-0001'', ''convener@lib.in'')
                   \<mapsto> \<lparr>read_perm = 1, write_perm = 0, submit_perm = 1, share_perm = 1\<rparr>),
       todos := [demo_task\<lparr>status := ''Closed''\<rparr>, convener_task]\<rparr>"

section \<open>Facts about the reference host\<close>

lemma matches_open_for:
  "matches [(''reference_type'', dt), (''reference_name'', n), (''allocated_to'', u), (''status'', ''Open'')] t
     = open_for dt n u t"
  by (simp add: matches_def todo_field_def open_for_def)

lemma host_fields:
  "get_single (host_of kws) = host_get_single" "get_doc (host_of kws) = host_get_doc"
  "share_add (host_of kws) = host_share_add"
  "share_remove (host_of kws) = host_share_remove kws"
  "db_exists (host_of kws) = host_db_exists" "get_all (host_of kws) = host_get_all"
  "get_doc_todo (host_of kws) = host_get_doc_todo"
  "todo_insert (host_of kws) = host_todo_insert"
  "todo_save (host_of kws) = host_todo_save"
  by (simp_all add: host_of_def)

lemma close_todos_host:
  "\<forall>i \<in> set ns. i < length (todos db) \<Longrightarrow>
   close_todos (host_of kws) ns db =
     (Inr (), db\<lparr>todos := map (\<lambda>i. if i \<in> set ns then (todos db ! i)\<lparr>status := ''Closed''\<rparr> else todos db ! i) [0..<length (todos db)]\<rparr>)"
proof (induction ns arbitrary: db)
  case Nil
  then show ?case by (simp add: map_nth)
next
  case (Cons n ns)
  let ?db1 = "db\<lparr>todos := (todos db)[n := (todos db ! n)\<lparr>status := ''Closed''\<rparr>]\<rparr>"
  have n: "n < length (todos db)" using Cons.prems by simp
  have step: "close_todos (host_of kws) (n # ns) db = close_todos (host_of kws) ns ?db1"
    using n by (simp add: host_fields host_get_doc_todo_def host_todo_save_def)
  have "\<forall>i \<in> set ns. i < length (todos ?db1)" using Cons.prems by simp
  from Cons.IH [OF this] have "close_todos (host_of kws) ns ?db1 =
     (Inr (), ?db1\<lparr>todos := map (\<lambda>i. if i \<in> set ns then (todos ?db1 ! i)\<lparr>status := ''Closed''\<rparr> else todos ?db1 ! i) [0..<length (todos ?db1)]\<rparr>)" .
  moreover have "map (\<lambda>i. if i \<in> set ns then (todos ?db1 ! i)\<lparr>status := ''Closed''\<rparr> else todos ?db1 ! i) [0..<length (todos ?db1)]
     = map (\<lambda>i. if i \<in> set (n # ns) then (todos db ! i)\<lparr>status := ''Closed''\<rparr> else todos db ! i) [0..<length (todos db)]"
    using n by (auto simp: nth_list_update)
  ultimately show ?case using step by simp
qed

lemma matching_set: "set (matching fs db) = {i. i < length (todos db) \<and> matches fs (todos db ! i)}"
  by (auto simp: matching_def)

text \<open>The revoke of a host that has the keyword, and of one that has not.\<close>

lemma remove_share_try_accepted:
  assumes "''ignore_permissions'' \<in> set kws"
  shows "remove_share_try (host_of kws) self u db =
     (Inr (), db\<lparr>shares := (shares db)((doctype self, name self, u) := None),
                  todos := close_open_tasks (doctype self) (name self) u (todos db)\<rparr>)"
proof -
  let ?fs = "[(''reference_type'', doctype self), (''reference_name'', name self), (''allocated_to'', u), (''status'', ''Open'')]"
  let ?db1 = "db\<lparr>shares := (shares db)((doctype self, name self, u) := None)\<rparr>"
  have bound: "\<forall>i \<in> set (matching ?fs ?db1). i < length (todos ?db1)"
    by (simp add: matching_set)
  have eq: "map (\<lambda>i. if i \<in> set (matching ?fs ?db1) then (todos ?db1 ! i)\<lparr>status := ''Closed''\<rparr> else todos ?db1 ! i) [0..<length (todos ?db1)]
      = close_open_tasks (doctype self) (name self) u (todos db)"
    by (rule nth_equalityI) (simp_all add: close_open_tasks_def matching_set matches_open_for)
  have 1: "share_remove (host_of kws) (doctype self) (name self) u
      [(''ignore_permissions'', True)] db = (Inr (), ?db1)"
    using assms by (simp add: host_fields host_share_remove_def)
  have 2: "get_all (host_of kws) ?fs ?db1 = Inr (matching ?fs ?db1)"
    by (simp add: host_fields host_get_all_def)
  have 3: "close_todos (host_of kws) (matching ?fs ?db1) ?db1 =
      (Inr (), ?db1\<lparr>todos := close_open_tasks (doctype self) (name self) u (todos db)\<rparr>)"
    by (simp only: close_todos_host [OF bound] eq)
  show ?thesis
    by (simp only: remove_share_try_def 1 2 3 prod.case sum.case)
qed

lemma remove_share_try_rejected:
  assumes "''ignore_permissions'' \<notin> set kws"
  shows "remove_share_try (host_of kws) self u db = (Inl TypeError, db)"
  using assms by (simp add: remove_share_try_def host_fields host_share_remove_def)

lemma remove_share_permission_accepted:
  "''ignore_permissions'' \<in> set kws \<Longrightarrow> u \<noteq> [] \<Longrightarrow>
   remove_share_permission (host_of kws) self (Some u) db =
     (Inr (), db\<lparr>shares := (shares db)((doctype self, name self, u) := None),
                  todos := close_open_tasks (doctype self) (name self) u (todos db)\<rparr>)"
  by (simp add: remove_share_permission_def remove_share_try_accepted)

lemma remove_share_permission_rejected:
  "''ignore_permissions'' \<notin> set kws \<Longrightarrow>
   remove_share_permission (host_of kws) self user db = (Inr (), db)"
  by (simp add: remove_share_permission_def remove_share_try_rejected split: option.splits)

lemma remove_share_permission_host:
  "remove_share_permission host self user db = (Inr (), db)"
  by (simp add: host_def remove_share_permission_rejected)

lemma matching_Nil: "(matching fs db = []) = (\<not> list_ex (matches fs) (todos db))"
  using nth_mem by (fastforce simp: matching_def filter_empty_conv list_ex_iff in_set_conv_nth)

lemma share_and_assign_host:
  "u \<noteq> [] \<Longrightarrow> share_and_assign (host_of kws) self (Some u) td perms db =
     (Inr (), db\<lparr>shares := (shares db)((doctype self, name self, u) \<mapsto>
                    \<lparr>read_perm = perm_get perms ''read'', write_perm = perm_get perms ''write'',
                     submit_perm = perm_get perms ''submit'', share_perm = perm_get perms ''share''\<rparr>),
                  todos :=
                    (if list_ex (open_for (doctype self) (name self) u) (todos db) then todos db
                     else todos db @
                       [\<lparr>allocated_to = u, reference_type = doctype self,
                         reference_name = name self,
                         description = ''Please review for '' @ py_str td @ '': '' @ name self,
                         status = ''Open''\<rparr>])\<rparr>)"
proof -
  let ?fs = "[(''reference_type'', doctype self), (''reference_name'', name self), (''allocated_to'', u), (''status'', ''Open'')]"
  have m: "matches ?fs = open_for (doctype self) (name self) u"
    by (rule ext) (rule matches_open_for)
  assume u: "u \<noteq> []"
  show ?thesis
  proof (cases "list_ex (open_for (doctype self) (name self) u) (todos db)")
    case True
    then have "matching ?fs (db\<lparr>shares := (shares db)((doctype self, name self, u) \<mapsto>
                    \<lparr>read_perm = perm_get perms ''read'', write_perm = perm_get perms ''write'',
                     submit_perm = perm_get perms ''submit'', share_perm = perm_get perms ''share''\<rparr>)\<rparr>) \<noteq> []"
      by (simp only: matching_Nil m) simp
    with u True show ?thesis
      by (simp add: share_and_assign_def host_fields host_share_add_def host_db_exists_def split: list.splits)
  next
    case False
    then have "matching ?fs (db\<lparr>shares := (shares db)((doctype self, name self, u) \<mapsto>
                    \<lparr>read_perm = perm_get perms ''read'', write_perm = perm_get perms ''write'',
                     submit_perm = perm_get perms ''submit'', share_perm = perm_get perms ''share''\<rparr>)\<rparr>) = []"
      by (simp only: matching_Nil m) simp
    with u False show ?thesis
      by (simp add: share_and_assign_def host_fields host_share_add_def host_db_exists_def host_todo_insert_def)
  qed
qed

lemma config_get_None:
  "st \<notin> Some ` fst ` set WORKFLOW_CONFIG \<Longrightarrow> config_get st = None"
  by (cases st) (auto simp: config_get_def map_of_eq_None_iff)

lemma remove_share_permission_returns:
  "fst (remove_share_permission fw self user db) = Inr ()"
  by (simp add: remove_share_permission_def split: option.splits prod.splits sum.splits)

section \<open>The dispatch does nothing\<close>

text \<open>
  C3. A document whose workflow state is not a key of the configuration table (an unknown
  state, or no state at all): the dispatch returns normally with the store as it was,
  on any host, and so do the two hooks that call it. No grant is created or removed and
  no task is created or closed; the document itself is only read by the dispatch.
\<close>

theorem unknown_state_no_effect:
  assumes "workflow_state self \<notin> Some ` fst ` set WORKFLOW_CONFIG"
  shows "handle_workflow fw self db = (Inr (), db)
       \<and> on_submit fw self db = (Inr (), db)
       \<and> on_update_after_submit fw self db = (Inr (), db)"
  using config_get_None [OF assms]
  by (simp add: handle_workflow_def on_submit_def on_update_after_submit_def)

text \<open>The state \<^verbatim>\<open>Draft\<close> on the reference host, and no state on a host that only raises.\<close>

theorem unknown_state_no_effect_witness:
  "handle_workflow host (demo_request\<lparr>workflow_state := Some ''Draft''\<rparr>) demo_store
     = (Inr (), demo_store)
   \<and> handle_workflow raising_host (demo_request\<lparr>workflow_state := None\<rparr>) demo_store
     = (Inr (), demo_store)"
  using unknown_state_no_effect [of "demo_request\<lparr>workflow_state := Some ''Draft''\<rparr>" host demo_store]
    unknown_state_no_effect [of "demo_request\<lparr>workflow_state := None\<rparr>" raising_host demo_store]
  by (simp add: demo_request_def WORKFLOW_CONFIG_def image_iff)

text \<open>
  C4. A save in which the workflow state equals the snapshot taken before the save: the
  dispatch returns normally with the store as it was, on any host. No grant is added or
  removed and no task is created or closed.
\<close>

theorem unchanged_state_no_effect:
  assumes "previous_workflow_state self = Some (workflow_state self)"
  shows "handle_workflow fw self db = (Inr (), db)
       \<and> on_submit fw self db = (Inr (), db)
       \<and> on_update_after_submit fw self db = (Inr (), db)"
  using assms by (simp add: handle_workflow_def on_submit_def on_update_after_submit_def)

theorem unchanged_state_no_effect_witness:
  "handle_workflow host
     (demo_request\<lparr>previous_workflow_state := Some (Some ''Pending for HOD Approval'')\<rparr>)
     demo_store = (Inr (), demo_store)"
  using unchanged_state_no_effect
    [of "demo_request\<lparr>previous_workflow_state := Some (Some ''Pending for HOD Approval'')\<rparr>"
        host demo_store]
  by (simp add: demo_request_def)

section \<open>Revocation\<close>

text \<open>
  C5. The revocation step never raises, whatever the host does and whoever the user is:
  its outcome is always the normal return. As a consequence the dispatch into a state
  with no next approver, where revocation is the only step, never raises either, so the
  save that triggered it is not aborted.
\<close>

theorem revocation_never_raises:
  "fst (remove_share_permission fw self user db) = Inr ()
   \<and> (\<forall>cfg. config_get (workflow_state self) = Some cfg \<and> approver_field cfg = None
         \<longrightarrow> fst (handle_workflow fw self db) = Inr ())"
proof (intro conjI allI impI)
  show "fst (remove_share_permission fw self user db) = Inr ()"
    by (rule remove_share_permission_returns)
next
  fix cfg
  assume c: "config_get (workflow_state self) = Some cfg \<and> approver_field cfg = None"
  obtain r db1 where r: "remove_share_permission fw self
      (get self (the (previous_approver_field cfg))) db = (r, db1)"
    by (cases "remove_share_permission fw self (get self (the (previous_approver_field cfg))) db")
  with remove_share_permission_returns [of fw self "get self (the (previous_approver_field cfg))" db]
  have "r = Inr ()" by simp
  with c r show "fst (handle_workflow fw self db) = Inr ()"
    by (auto simp: handle_workflow_def Let_def split: option.splits)
qed

text \<open>
  A user who was never granted access, on a host where every operation raises; a host that
  removes the grant and then fails on the first task, where the removal stays and the
  task is left Open; and the dispatch into \<^verbatim>\<open>Approved\<close> on the raising host.
\<close>

theorem revocation_never_raises_witness:
  "remove_share_permission raising_host demo_request (Some ''nobody@lib.in'') demo_store
     = (Inr (), demo_store)
   \<and> fst (remove_share_permission half_host demo_request (Some ''librarian@lib.in'') demo_store)
     = Inr ()
   \<and> shares (snd (remove_share_permission half_host demo_request (Some ''librarian@lib.in'')
        demo_store)) (''Book Suggestion Request'', ''BSR-0001'', ''librarian@lib.in'') = None
   \<and> todos (snd (remove_share_permission half_host demo_request (Some ''librarian@lib.in'')
        demo_store)) = [demo_task]
   \<and> fst (handle_workflow raising_host (demo_request\<lparr>workflow_state := Some ''Approved''\<rparr>)
        demo_store) = Inr ()"
proof -
  have a: "config_get (workflow_state (demo_request\<lparr>workflow_state := Some ''Approved''\<rparr>))
      = Some \<lparr>approver_field = None, task_description = None, permissions = None,
          previous_approver_field = Some ''library_convener''\<rparr>"
    by (simp add: config_get_def WORKFLOW_CONFIG_def)
  have 1: "remove_share_permission raising_host demo_request (Some ''nobody@lib.in'') demo_store
     = (Inr (), demo_store)"
    by (simp add: remove_share_permission_def remove_share_try_def raising_host_def)
  have 2: "remove_share_permission half_host demo_request (Some ''librarian@lib.in'') demo_store
     = (Inr (), demo_store\<lparr>shares := Map.empty\<rparr>)"
    by (simp add: remove_share_permission_def remove_share_try_def half_host_def accepting_host_def host_of_def
        host_share_remove_def host_get_all_def matching_def matches_def todo_field_def
        demo_store_def demo_request_def demo_task_def)
  show ?thesis
    using revocation_never_raises [of raising_host "demo_request\<lparr>workflow_state := Some ''Approved''\<rparr>"
        "Some ''nobody@lib.in''" demo_store] a
    by (simp add: 1 2) (simp add: demo_store_def)
qed

lemma close_open_tasks_length: "length (close_open_tasks dt n u ts) = length ts"
  by (simp add: close_open_tasks_def)

lemma close_open_tasks_nth:
  "i < length ts \<Longrightarrow> close_open_tasks dt n u ts ! i =
     (if open_for dt n u (ts ! i) then (ts ! i)\<lparr>status := ''Closed''\<rparr> else ts ! i)"
  by (simp add: close_open_tasks_def)

text \<open>
  On a host whose revoke has the keyword the source passes, the revocation returns
  normally, the table of tasks keeps its length, each task that is Open for this
  document and this user becomes the same task with status Closed, every other task is
  what it was, the user's grant on the document is gone and every other grant is what
  it was. This is what the method is written to do.
\<close>

lemma revoke_accepted:
  fixes self :: request and u :: string and db :: store and kws :: "string list"
  defines "db' \<equiv> snd (remove_share_permission (host_of kws) self (Some u) db)"
  assumes "''ignore_permissions'' \<in> set kws" and "u \<noteq> []"
  shows "fst (remove_share_permission (host_of kws) self (Some u) db) = Inr ()
       \<and> length (todos db') = length (todos db)
       \<and> (\<forall>i < length (todos db).
             todos db' ! i =
               (if reference_type (todos db ! i) = doctype self
                   \<and> reference_name (todos db ! i) = name self
                   \<and> allocated_to (todos db ! i) = u
                   \<and> status (todos db ! i) = ''Open''
                then (todos db ! i)\<lparr>status := ''Closed''\<rparr>
                else todos db ! i))
       \<and> shares db' (doctype self, name self, u) = None
       \<and> (\<forall>k. k \<noteq> (doctype self, name self, u) \<longrightarrow> shares db' k = shares db k)
       \<and> settings db' = settings db \<and> requests db' = requests db"
  using assms
  by (simp add: remove_share_permission_accepted close_open_tasks_length close_open_tasks_nth
      open_for_def)

text \<open>
  C8. The claim: revoking access from a user sets every Open task for (document, user)
  to Closed, deletes no task, and leaves the tasks and grants of every other user and
  the user's Closed tasks unchanged. The code on the reference host: the source calls
  the revoke with \<^verbatim>\<open>ignore_permissions=True\<close>, a keyword the revoke does not have; the
  call raises \<^verbatim>\<open>TypeError\<close>, \<^verbatim>\<open>except Exception: pass\<close> swallows it, and the
  query and the loop that close the tasks, which stand after the call in the same
  \<^verbatim>\<open>try\<close> block, are never reached. For the librarian of the demo store the method
  returns normally with the store as it was: the librarian's task is still Open and
  the librarian's grant is still there.
\<close>

theorem revoke_changes_nothing:
  "remove_share_permission host demo_request (Some ''librarian@lib.in'') demo_store
     = (Inr (), demo_store)
   \<and> open_for (doctype demo_request) (name demo_request) ''librarian@lib.in''
       (todos (snd (remove_share_permission host demo_request (Some ''librarian@lib.in'')
          demo_store)) ! 0)
   \<and> shares (snd (remove_share_permission host demo_request (Some ''librarian@lib.in'')
          demo_store))
       (doctype demo_request, name demo_request, ''librarian@lib.in'')
     = Some \<lparr>read_perm = 1, write_perm = 1, submit_perm = 1, share_perm = 1\<rparr>"
  by (simp add: remove_share_permission_host)
     (simp add: demo_store_def demo_request_def demo_task_def open_for_def)

section \<open>The transitions\<close>

lemma config_get_hod:
  "config_get (Some ''Pending for HOD Approval'') =
     Some \<lparr>approver_field = Some ''hod'', task_description = Some ''HOD Approval'',
           permissions = Some [(''read'', 1), (''write'', 0), (''submit'', 1), (''share'', 1)],
           previous_approver_field = Some ''librarian''\<rparr>"
  by (simp add: config_get_def WORKFLOW_CONFIG_def)

lemma config_get_terminal:
  "st = ''Approved'' \<or> st = ''Rejected'' \<Longrightarrow>
   config_get (Some st) =
     Some \<lparr>approver_field = None, task_description = None, permissions = None,
           previous_approver_field = Some ''library_convener''\<rparr>"
  by (auto simp: config_get_def WORKFLOW_CONFIG_def)

lemma guard_open:
  "previous_workflow_state self \<noteq> Some (workflow_state self) \<Longrightarrow>
   \<not> (case previous_workflow_state self of None \<Rightarrow> False
        | Some prev \<Rightarrow> prev = workflow_state self)"
  by (cases "previous_workflow_state self") auto

text \<open>
  On a host whose revoke has the keyword, the transition into
  \<^verbatim>\<open>Pending for HOD Approval\<close> removes the librarian's grant and closes the librarian's
  Open tasks, then gives the head of department the grant read 1, write 0, submit 1,
  share 1 and, if no Open task for (document, head of department) exists at that
  point, appends exactly one with the description of the state.
\<close>

lemma hod_transition_accepted:
  assumes kws: "''ignore_permissions'' \<in> set kws"
    and "workflow_state self = Some ''Pending for HOD Approval''"
    and "previous_workflow_state self \<noteq> Some (workflow_state self)"
    and "librarian self = Some l" and "l \<noteq> []"
  shows "(\<forall>h. hod self = Some h \<and> h \<noteq> [] \<longrightarrow>
            handle_workflow (host_of kws) self db =
              (Inr (),
               db\<lparr>shares := ((shares db)((doctype self, name self, l) := None))
                       ((doctype self, name self, h) \<mapsto>
                          \<lparr>read_perm = 1, write_perm = 0, submit_perm = 1, share_perm = 1\<rparr>),
                   todos :=
                     (if list_ex (open_for (doctype self) (name self) h)
                           (close_open_tasks (doctype self) (name self) l (todos db))
                      then close_open_tasks (doctype self) (name self) l (todos db)
                      else close_open_tasks (doctype self) (name self) l (todos db) @
                        [\<lparr>allocated_to = h, reference_type = doctype self,
                          reference_name = name self,
                          description = ''Please review for HOD Approval: '' @ name self,
                          status = ''Open''\<rparr>])\<rparr>))
       \<and> (\<not> truthy (hod self) \<longrightarrow>
            handle_workflow (host_of kws) self db =
              (Inr (),
               db\<lparr>shares := (shares db)((doctype self, name self, l) := None),
                   todos := close_open_tasks (doctype self) (name self) l (todos db)\<rparr>))"
proof (intro conjI allI impI)
  fix h
  assume h: "hod self = Some h \<and> h \<noteq> []"
  then have hh: "h \<noteq> []" by simp
  show "handle_workflow (host_of kws) self db =
              (Inr (),
               db\<lparr>shares := ((shares db)((doctype self, name self, l) := None))
                       ((doctype self, name self, h) \<mapsto>
                          \<lparr>read_perm = 1, write_perm = 0, submit_perm = 1, share_perm = 1\<rparr>),
                   todos :=
                     (if list_ex (open_for (doctype self) (name self) h)
                           (close_open_tasks (doctype self) (name self) l (todos db))
                      then close_open_tasks (doctype self) (name self) l (todos db)
                      else close_open_tasks (doctype self) (name self) l (todos db) @
                        [\<lparr>allocated_to = h, reference_type = doctype self,
                          reference_name = name self,
                          description = ''Please review for HOD Approval: '' @ name self,
                          status = ''Open''\<rparr>])\<rparr>)"
    using h assms(4,5) guard_open [OF assms(3)]
    by (simp add: handle_workflow_def assms(2) config_get_hod get_def truthy_def
        remove_share_permission_accepted [OF kws assms(5)] share_and_assign_host [OF hh]
        perm_get_def py_str_def)
next
  assume "\<not> truthy (hod self)"
  then show "handle_workflow (host_of kws) self db =
              (Inr (),
               db\<lparr>shares := (shares db)((doctype self, name self, l) := None),
                   todos := close_open_tasks (doctype self) (name self) l (todos db)\<rparr>)"
    using assms(4,5) guard_open [OF assms(3)]
    by (simp add: handle_workflow_def assms(2) config_get_hod get_def truthy_def
        remove_share_permission_accepted [OF kws assms(5)])
qed

lemma share_and_assign_falsy:
  "\<not> truthy user \<Longrightarrow> share_and_assign fw self user td perms db = (Inr (), db)"
  by (auto simp: share_and_assign_def truthy_def split: option.splits)

text \<open>On the reference host the revocation changes nothing, so the transition is the grant step.\<close>

lemma hod_transition_host:
  assumes "workflow_state self = Some ''Pending for HOD Approval''"
    and "previous_workflow_state self \<noteq> Some (workflow_state self)"
  shows "handle_workflow host self db =
     share_and_assign host self (hod self) (Some ''HOD Approval'')
       [(''read'', 1), (''write'', 0), (''submit'', 1), (''share'', 1)] db"
proof (cases "truthy (hod self)")
  case True
  with guard_open [OF assms(2)] show ?thesis
    by (simp add: handle_workflow_def assms(1) config_get_hod get_def Let_def
        remove_share_permission_host cong: if_cong)
next
  case False
  with guard_open [OF assms(2)] show ?thesis
    by (simp add: handle_workflow_def assms(1) config_get_hod get_def Let_def
        remove_share_permission_host share_and_assign_falsy cong: if_cong)
qed

text \<open>
  C1. The claim: when the state changes to \<^verbatim>\<open>Pending for HOD Approval\<close>, the dispatch
  revokes the librarian's grant and closes the librarian's Open tasks on the document,
  then grants the head of department read 1, write 0, submit 1, share 1 and creates
  exactly one Open task for (document, head of department) if none existed, with the
  description \<^verbatim>\<open>Please review for HOD Approval: \<close> and the document's name. The code
  on the reference host, for the demo request and the demo store: the dispatch returns
  normally, the head of department has the grant and the one new task with that
  description, and the librarian still has the grant and the Open task, because the
  revoke is called with a keyword it does not have and the \<^verbatim>\<open>TypeError\<close> is
  swallowed.
\<close>

theorem hod_transition_keeps_librarian:
  "handle_workflow host demo_request demo_store =
     (Inr (),
      demo_store\<lparr>shares := (shares demo_store)
          ((''Book Suggestion Request'', ''BSR-0001'', ''hod@lib.in'') \<mapsto>
             \<lparr>read_perm = 1, write_perm = 0, submit_perm = 1, share_perm = 1\<rparr>),
        todos := [demo_task, other_task]\<rparr>)
   \<and> librarian demo_request = Some ''librarian@lib.in''
   \<and> status demo_task = ''Open''
   \<and> shares (snd (handle_workflow host demo_request demo_store))
       (''Book Suggestion Request'', ''BSR-0001'', ''librarian@lib.in'')
     = Some \<lparr>read_perm = 1, write_perm = 1, submit_perm = 1, share_perm = 1\<rparr>"
proof -
  have a: "workflow_state demo_request = Some ''Pending for HOD Approval''"
    and b: "previous_workflow_state demo_request \<noteq> Some (workflow_state demo_request)"
    and h: "hod demo_request = Some ''hod@lib.in''"
    and dt: "doctype demo_request = ''Book Suggestion Request''"
    and n: "name demo_request = ''BSR-0001''"
    and l: "librarian demo_request = Some ''librarian@lib.in''"
    by (simp_all add: demo_request_def)
  have s: "share_and_assign host demo_request (Some ''hod@lib.in'') (Some ''HOD Approval'')
        [(''read'', 1), (''write'', 0), (''submit'', 1), (''share'', 1)] demo_store
      = (Inr (),
      demo_store\<lparr>shares := (shares demo_store)
          ((''Book Suggestion Request'', ''BSR-0001'', ''hod@lib.in'') \<mapsto>
             \<lparr>read_perm = 1, write_perm = 0, submit_perm = 1, share_perm = 1\<rparr>),
        todos := [demo_task, other_task]\<rparr>)"
    by (simp add: host_def share_and_assign_host dt n perm_get_def py_str_def)
       (simp add: demo_store_def open_for_def demo_task_def other_task_def)
  have 1: "handle_workflow host demo_request demo_store =
     (Inr (),
      demo_store\<lparr>shares := (shares demo_store)
          ((''Book Suggestion Request'', ''BSR-0001'', ''hod@lib.in'') \<mapsto>
             \<lparr>read_perm = 1, write_perm = 0, submit_perm = 1, share_perm = 1\<rparr>),
        todos := [demo_task, other_task]\<rparr>)"
    by (simp only: hod_transition_host [OF a b] h s)
  show ?thesis
    by (simp only: 1) (simp add: l demo_task_def demo_store_def)
qed

lemma handle_workflow_terminal:
  assumes "workflow_state self = Some st" and "st = ''Approved'' \<or> st = ''Rejected''"
    and "previous_workflow_state self \<noteq> Some (workflow_state self)"
  shows "handle_workflow (host_of kws) self db =
     (if truthy (library_convener self)
      then remove_share_permission (host_of kws) self (library_convener self) db
      else (Inr (), db))"
proof -
  have g: "\<not> (case previous_workflow_state self of None \<Rightarrow> False
                  | Some prev \<Rightarrow> prev = workflow_state self)"
    using assms(3) by (cases "previous_workflow_state self") auto
  obtain r db1 where r: "remove_share_permission (host_of kws) self (library_convener self) db = (r, db1)"
    by (cases "remove_share_permission (host_of kws) self (library_convener self) db")
  with remove_share_permission_returns [of "host_of kws" self "library_convener self" db]
  have "r = Inr ()" by simp
  with r g show ?thesis
    by (simp add: handle_workflow_def assms(1) config_get_terminal [OF assms(2)] get_def)
qed

text \<open>
  On a host whose revoke has the keyword, the transition into \<^verbatim>\<open>Approved\<close> or
  \<^verbatim>\<open>Rejected\<close> removes the convener's grant and closes the convener's Open tasks, and
  creates no task and no grant.
\<close>

lemma terminal_state_accepted:
  fixes self :: request and db :: store and kws :: "string list"
  defines "db' \<equiv> snd (handle_workflow (host_of kws) self db)"
  assumes kws: "''ignore_permissions'' \<in> set kws"
    and "workflow_state self = Some ''Approved'' \<or> workflow_state self = Some ''Rejected''"
    and "previous_workflow_state self \<noteq> Some (workflow_state self)"
  shows "fst (handle_workflow (host_of kws) self db) = Inr ()
       \<and> (\<forall>u. library_convener self = Some u \<and> u \<noteq> [] \<longrightarrow>
             db' = db\<lparr>shares := (shares db)((doctype self, name self, u) := None),
                       todos := close_open_tasks (doctype self) (name self) u (todos db)\<rparr>)
       \<and> (\<not> truthy (library_convener self) \<longrightarrow> db' = db)
       \<and> length (todos db') = length (todos db)
       \<and> (\<forall>i < length (todos db).
             todos db' ! i = todos db ! i
           \<or> todos db' ! i = (todos db ! i)\<lparr>status := ''Closed''\<rparr>)
       \<and> (\<forall>k. shares db' k = None \<or> shares db' k = shares db k)"
proof -
  obtain st where st: "workflow_state self = Some st" "st = ''Approved'' \<or> st = ''Rejected''"
    using assms(3) by auto
  note hw = handle_workflow_terminal [OF st assms(4), of kws db]
  show ?thesis
  proof (cases "truthy (library_convener self)")
    case False
    with hw show ?thesis by (auto simp: db'_def truthy_def)
  next
    case True
    then obtain u where u: "library_convener self = Some u" "u \<noteq> []"
      by (auto simp: truthy_def split: option.splits)
    with hw True show ?thesis
      by (simp add: db'_def remove_share_permission_accepted [OF kws] close_open_tasks_length
          close_open_tasks_nth)
  qed
qed

text \<open>On the reference host the transition into a final state changes nothing at all.\<close>

lemma terminal_state_host:
  assumes "workflow_state self = Some st" and "st = ''Approved'' \<or> st = ''Rejected''"
    and "previous_workflow_state self \<noteq> Some (workflow_state self)"
  shows "handle_workflow host self db = (Inr (), db)"
  using handle_workflow_terminal [OF assms, of "[''flags'']" db]
  by (simp add: host_def [symmetric] remove_share_permission_host)

text \<open>
  C6. The claim: when the state changes to \<^verbatim>\<open>Approved\<close> or \<^verbatim>\<open>Rejected\<close>, the dispatch
  revokes the convener's grant and closes the convener's Open tasks on the document,
  and creates no grant and no task. The code on the reference host, for the rejected
  (and the approved) request and a store in which the convener holds the grant and an
  Open task: the dispatch returns normally with the store as it was. No grant and no
  task is created, and the convener still has the grant and the Open task, because the
  revoke is called with a keyword it does not have and the \<^verbatim>\<open>TypeError\<close> is
  swallowed.
\<close>

theorem terminal_state_keeps_convener:
  "handle_workflow host rejected_request convener_store = (Inr (), convener_store)
   \<and> handle_workflow host (rejected_request\<lparr>workflow_state := Some ''Approved''\<rparr>)
       convener_store = (Inr (), convener_store)
   \<and> library_convener rejected_request = Some ''convener@lib.in''
   \<and> open_for (doctype rejected_request) (name rejected_request) ''convener@lib.in''
       (todos (snd (handle_workflow host rejected_request convener_store)) ! 1)
   \<and> shares (snd (handle_workflow host rejected_request convener_store))
       (doctype rejected_request, name rejected_request, ''convener@lib.in'')
     = Some \<lparr>read_perm = 1, write_perm = 0, submit_perm = 1, share_perm = 1\<rparr>"
proof -
  have r: "handle_workflow host rejected_request convener_store = (Inr (), convener_store)"
    by (rule terminal_state_host [of _ "''Rejected''"]) (simp_all add: rejected_request_def)
  have a: "handle_workflow host (rejected_request\<lparr>workflow_state := Some ''Approved''\<rparr>)
       convener_store = (Inr (), convener_store)"
    by (rule terminal_state_host [of _ "''Approved''"]) (simp_all add: rejected_request_def)
  show ?thesis
    by (simp only: r a)
       (simp add: rejected_request_def demo_request_def convener_store_def convener_task_def
          open_for_def)
qed

section \<open>At most one Open task per document and user\<close>

lemma open_after_close:
  "t \<in> set (close_open_tasks dt n u ts) \<Longrightarrow> status t = ''Open'' \<Longrightarrow>
   t \<in> set ts \<and> \<not> open_for dt n u t"
  by (auto simp: close_open_tasks_def split: if_splits)

lemma one_open_task_close:
  "one_open_task ts \<Longrightarrow> one_open_task (close_open_tasks dt n u ts)"
proof (induction ts)
  case Nil
  then show ?case by (simp add: close_open_tasks_def)
next
  case (Cons t ts)
  have tl: "one_open_task (close_open_tasks dt n u ts)"
    using Cons by (simp add: one_open_task_def split: if_splits)
  have cons: "close_open_tasks dt n u (t # ts) =
      (if open_for dt n u t then t\<lparr>status := ''Closed''\<rparr> else t) # close_open_tasks dt n u ts"
    by (simp add: close_open_tasks_def)
  show ?case
  proof (cases "status t = ''Open'' \<and> \<not> open_for dt n u t")
    case True
    have "task_key t \<notin> task_key ` set (filter (\<lambda>t. status t = ''Open'') ts)"
      using Cons.prems True by (simp add: one_open_task_def)
    then have "task_key t \<notin> task_key ` set (filter (\<lambda>t. status t = ''Open'')
        (close_open_tasks dt n u ts))"
      using open_after_close [of _ dt n u ts] by auto
    with tl True show ?thesis by (simp add: cons one_open_task_def)
  next
    case False
    with tl show ?thesis by (auto simp: cons one_open_task_def open_for_def)
  qed
qed

lemma one_open_task_append:
  assumes "one_open_task ts" and "\<not> list_ex (open_for dt n u) ts"
  shows "one_open_task (ts @ [\<lparr>allocated_to = u, reference_type = dt, reference_name = n,
      description = d, status = ''Open''\<rparr>])"
  using assms by (auto simp: one_open_task_def list_ex_iff open_for_def task_key_def)

lemma at_most_one:
  "distinct (map f xs) \<Longrightarrow> length (filter (\<lambda>x. f x = k) xs) \<le> Suc 0"
proof (induction xs)
  case Nil
  then show ?case by simp
next
  case (Cons x xs)
  show ?case
  proof (cases "f x = k")
    case True
    have "f x \<notin> f ` set xs" using Cons.prems by simp
    then have "\<forall>y \<in> set xs. f y \<noteq> k" using True by (metis imageI)
    then have "filter (\<lambda>x. f x = k) xs = []"
      by (simp add: filter_empty_conv)
    with True show ?thesis by simp
  next
    case False
    with Cons show ?thesis by simp
  qed
qed

lemma one_open_task_count:
  assumes "one_open_task ts"
  shows "length (filter (open_for dt n u) ts) \<le> 1"
proof -
  have "filter (open_for dt n u) ts =
      filter (\<lambda>t. task_key t = (dt, n, u)) (filter (\<lambda>t. status t = ''Open'') ts)"
    by (auto simp: open_for_def task_key_def intro: filter_cong)
  with at_most_one [of task_key "filter (\<lambda>t. status t = ''Open'') ts" "(dt, n, u)"] assms
  show ?thesis by (simp add: one_open_task_def)
qed

lemma remove_share_permission_inv:
  assumes "remove_share_permission (host_of kws) self user db = (r, db1)"
    and "one_open_task (todos db)"
  shows "r = Inr () \<and> one_open_task (todos db1)"
proof (cases "''ignore_permissions'' \<in> set kws")
  case False
  with assms show ?thesis by (simp add: remove_share_permission_rejected)
next
  case kws: True
  show ?thesis
  proof (cases "truthy user")
    case False
    with assms show ?thesis
      by (auto simp: remove_share_permission_def truthy_def split: option.splits)
  next
    case True
    then obtain u where "user = Some u" "u \<noteq> []"
      by (auto simp: truthy_def split: option.splits)
    with assms show ?thesis
      by (auto simp: remove_share_permission_accepted [OF kws] one_open_task_close)
  qed
qed

lemma share_and_assign_inv:
  assumes "share_and_assign (host_of kws) self user td perms db = (r, db1)" and "one_open_task (todos db)"
  shows "r = Inr () \<and> one_open_task (todos db1)"
proof (cases "truthy user")
  case False
  with assms show ?thesis
    by (auto simp: share_and_assign_def truthy_def split: option.splits)
next
  case True
  then obtain u where "user = Some u" "u \<noteq> []"
    by (auto simp: truthy_def split: option.splits)
  with assms show ?thesis
    by (auto simp: share_and_assign_host one_open_task_append)
qed

lemma share_and_assign_inv':
  assumes "one_open_task (todos db)"
  shows "fst (share_and_assign (host_of kws) self user td perms db) = Inr ()"
    and "one_open_task (todos (snd (share_and_assign (host_of kws) self user td perms db)))"
  using share_and_assign_inv [OF _ assms, where self = self and user = user and td = td and perms = perms and kws = kws]
  by (cases "share_and_assign (host_of kws) self user td perms db"; simp)+

lemma handle_workflow_inv:
  assumes "one_open_task (todos db)"
  shows "fst (handle_workflow (host_of kws) self db) = Inr ()
       \<and> one_open_task (todos (snd (handle_workflow (host_of kws) self db)))"
  using assms
  by (auto simp: handle_workflow_def Let_def share_and_assign_inv'
      split: option.splits prod.splits sum.splits if_splits
      dest: remove_share_permission_inv)

lemma dispatch_all_inv:
  "one_open_task (todos db) \<Longrightarrow> one_open_task (todos (dispatch_all (host_of kws) ds db))"
  by (induction ds arbitrary: db) (simp_all add: handle_workflow_inv)

lemma share_and_assign_twice:
  "snd (share_and_assign (host_of kws) self user td perms
          (snd (share_and_assign (host_of kws) self user td perms db)))
     = snd (share_and_assign (host_of kws) self user td perms db)"
proof (cases "truthy user")
  case False
  then show ?thesis
    by (auto simp: share_and_assign_def truthy_def split: option.splits)
next
  case True
  then obtain u where u: "user = Some u" "u \<noteq> []"
    by (auto simp: truthy_def split: option.splits)
  show ?thesis
    by (simp add: u share_and_assign_host open_for_def)
qed

text \<open>
  C2. On the reference host, and on any host of its kind whatever keyword parameters its
  revoke has: from a store in which each (document, user) pair has at most one Open
  task, every sequence of dispatches, on any documents, ends in a store with the same
  property: for each document and user the Open tasks number at most one. The grant
  step run a second time on the store the first run left returns normally and leaves
  that store as it is: no second Open task, no change of a grant.
\<close>

theorem one_open_task_per_pair:
  assumes "one_open_task (todos db)"
  shows "one_open_task (todos (dispatch_all (host_of kws) ds db))
       \<and> (\<forall>dt n u. length (filter (open_for dt n u) (todos (dispatch_all (host_of kws) ds db))) \<le> 1)
       \<and> fst (share_and_assign (host_of kws) self user td perms db) = Inr ()
       \<and> share_and_assign (host_of kws) self user td perms
            (snd (share_and_assign (host_of kws) self user td perms db))
          = (Inr (), snd (share_and_assign (host_of kws) self user td perms db))"
proof -
  have inv: "one_open_task (todos (dispatch_all (host_of kws) ds db))"
    using assms by (rule dispatch_all_inv)
  have first: "fst (share_and_assign (host_of kws) self user td perms db) = Inr ()"
    and mid: "one_open_task (todos (snd (share_and_assign (host_of kws) self user td perms db)))"
    using assms by (rule share_and_assign_inv')+
  have "fst (share_and_assign (host_of kws) self user td perms
            (snd (share_and_assign (host_of kws) self user td perms db))) = Inr ()"
    using mid by (rule share_and_assign_inv')
  then have again: "share_and_assign (host_of kws) self user td perms
            (snd (share_and_assign (host_of kws) self user td perms db))
          = (Inr (), snd (share_and_assign (host_of kws) self user td perms db))"
    using share_and_assign_twice [where self = self and user = user and td = td and perms = perms and db = db and kws = kws] by (simp add: prod_eq_iff)
  show ?thesis
    using inv first again one_open_task_count [OF inv] by simp
qed

text \<open>
  Three dispatches on the demo store, the second a repetition of the first with no
  snapshot, on the reference host and on the accepting host, and the grant step
  repeated for the head of department.
\<close>

theorem one_open_task_per_pair_witness:
  "one_open_task (todos demo_store)
   \<and> one_open_task (todos (dispatch_all host
        [demo_request, demo_request\<lparr>previous_workflow_state := None\<rparr>,
         demo_request\<lparr>workflow_state := Some ''Pending for Library Convener Approval'',
           previous_workflow_state := None\<rparr>] demo_store))
   \<and> one_open_task (todos (dispatch_all accepting_host
        [demo_request, demo_request\<lparr>previous_workflow_state := None\<rparr>,
         demo_request\<lparr>workflow_state := Some ''Pending for Library Convener Approval'',
           previous_workflow_state := None\<rparr>] demo_store))
   \<and> length (filter (open_for ''Book Suggestion Request'' ''BSR-0001'' ''hod@lib.in'')
        (todos (dispatch_all host
        [demo_request, demo_request\<lparr>previous_workflow_state := None\<rparr>,
         demo_request\<lparr>workflow_state := Some ''Pending for Library Convener Approval'',
           previous_workflow_state := None\<rparr>] demo_store))) \<le> 1
   \<and> share_and_assign host demo_request (Some ''hod@lib.in'') (Some ''HOD Approval'')
        [(''read'', 1)]
        (snd (share_and_assign host demo_request (Some ''hod@lib.in'') (Some ''HOD Approval'')
           [(''read'', 1)] demo_store))
       = (Inr (), snd (share_and_assign host demo_request (Some ''hod@lib.in'')
           (Some ''HOD Approval'') [(''read'', 1)] demo_store))"
proof -
  have h: "one_open_task (todos demo_store)"
    by (simp add: one_open_task_def demo_store_def)
  show ?thesis
    using h
      one_open_task_per_pair [OF h,
        where kws = "[''flags'']"
          and ds = "[demo_request, demo_request\<lparr>previous_workflow_state := None\<rparr>,
            demo_request\<lparr>workflow_state := Some ''Pending for Library Convener Approval'',
              previous_workflow_state := None\<rparr>]"
          and self = demo_request and user = "Some ''hod@lib.in''"
          and td = "Some ''HOD Approval''" and perms = "[(''read'', 1)]",
        folded host_def]
      one_open_task_per_pair [OF h,
        where kws = "[''flags'', ''ignore_permissions'']"
          and ds = "[demo_request, demo_request\<lparr>previous_workflow_state := None\<rparr>,
            demo_request\<lparr>workflow_state := Some ''Pending for Library Convener Approval'',
              previous_workflow_state := None\<rparr>]"
          and self = demo_request and user = "Some ''hod@lib.in''"
          and td = "Some ''HOD Approval''" and perms = "[(''read'', 1)]",
        folded accepting_host_def]
    by blast
qed

section \<open>Default approvers\<close>

text \<open>
  C7. On any host: when the settings record is found, \<^verbatim>\<open>before_validate\<close> returns
  normally with the document's \<^verbatim>\<open>librarian\<close> set to the record's
  \<^verbatim>\<open>default_librarian\<close> and its \<^verbatim>\<open>library_convener\<close> to the record's
  \<^verbatim>\<open>default_library_convener\<close>; when the record does not exist
  (\<^verbatim>\<open>DoesNotExistError\<close>), it raises the validation error with the message
  \<^verbatim>\<open>Please configure 'Library Settings' first.\<close>, which aborts the save.
\<close>

theorem before_validate_defaults:
  "(\<forall>s. get_single fw ''Library Settings'' db = Inr s \<longrightarrow>
        before_validate fw self db =
          (Inr (), self\<lparr>librarian := default_librarian s,
                         library_convener := default_library_convener s\<rparr>))
   \<and> (get_single fw ''Library Settings'' db = Inl DoesNotExistError \<longrightarrow>
        before_validate fw self db =
          (Inl (ValidationError ''Please configure 'Library Settings' first.''), self))"
  by (simp add: before_validate_def throw_def)

text \<open>The reference host with the settings record, and without it.\<close>

theorem before_validate_defaults_witness:
  "before_validate host (demo_request\<lparr>librarian := None, library_convener := Some ''old@lib.in''\<rparr>)
     demo_store
     = (Inr (), demo_request)
   \<and> before_validate host demo_request (demo_store\<lparr>settings := None\<rparr>)
     = (Inl (ValidationError ''Please configure 'Library Settings' first.''), demo_request)"
proof -
  have a: "get_single host ''Library Settings'' demo_store =
      Inr \<lparr>default_librarian = Some ''librarian@lib.in'',
           default_library_convener = Some ''convener@lib.in''\<rparr>"
    by (simp add: host_def host_of_def host_get_single_def demo_store_def)
  have b: "get_single host ''Library Settings'' (demo_store\<lparr>settings := None\<rparr>)
      = Inl DoesNotExistError"
    by (simp add: host_def host_of_def host_get_single_def)
  from before_validate_defaults [of host demo_store
      "demo_request\<lparr>librarian := None, library_convener := Some ''old@lib.in''\<rparr>"] a
  have 1: "before_validate host
      (demo_request\<lparr>librarian := None, library_convener := Some ''old@lib.in''\<rparr>) demo_store
     = (Inr (), demo_request)"
    by (simp add: demo_request_def)
  from before_validate_defaults [of host "demo_store\<lparr>settings := None\<rparr>" demo_request] b
  have 2: "before_validate host demo_request (demo_store\<lparr>settings := None\<rparr>)
     = (Inl (ValidationError ''Please configure 'Library Settings' first.''), demo_request)"
    by simp
  show ?thesis using 1 2 by simp
qed

text \<open>
  C9. On any host and for any document, new or submitted: \<^verbatim>\<open>before_validate\<close> never
  writes the \<^verbatim>\<open>hod\<close> field; when the settings record is found, the two fields hold the
  record's defaults afterwards whatever they held before (the result is the same for any
  prior values \<open>a\<close> and \<open>b\<close>); when the lookup raises, the document is as it was.
\<close>

theorem before_validate_overwrites:
  "hod (snd (before_validate fw self db)) = hod self
   \<and> (\<forall>s. get_single fw ''Library Settings'' db = Inr s \<longrightarrow>
          librarian (snd (before_validate fw self db)) = default_librarian s
        \<and> library_convener (snd (before_validate fw self db)) = default_library_convener s
        \<and> snd (before_validate fw (self\<lparr>librarian := a, library_convener := b\<rparr>) db)
            = snd (before_validate fw self db))
   \<and> (\<forall>e. get_single fw ''Library Settings'' db = Inl e \<longrightarrow>
          snd (before_validate fw self db) = self)"
  by (auto simp: before_validate_def split: sum.splits exn.splits)

text \<open>A submitted and a new document whose librarian field held another user.\<close>

theorem before_validate_overwrites_witness:
  "hod (snd (before_validate host
      (demo_request\<lparr>librarian := Some ''someone@lib.in'', docstatus := 1, islocal := False\<rparr>)
      demo_store)) = Some ''hod@lib.in''
   \<and> librarian (snd (before_validate host
      (demo_request\<lparr>librarian := Some ''someone@lib.in'', docstatus := 1, islocal := False\<rparr>)
      demo_store)) = Some ''librarian@lib.in''
   \<and> librarian (snd (before_validate host
      (demo_request\<lparr>librarian := Some ''someone@lib.in'', docstatus := 0, islocal := True\<rparr>)
      demo_store)) = Some ''librarian@lib.in''"
proof -
  have a: "get_single host ''Library Settings'' demo_store =
      Inr \<lparr>default_librarian = Some ''librarian@lib.in'',
           default_library_convener = Some ''convener@lib.in''\<rparr>"
    by (simp add: host_def host_of_def host_get_single_def demo_store_def)
  show ?thesis
    using a
      before_validate_overwrites [of host
        "demo_request\<lparr>librarian := Some ''someone@lib.in'', docstatus := 1, islocal := False\<rparr>"
        demo_store]
      before_validate_overwrites [of host
        "demo_request\<lparr>librarian := Some ''someone@lib.in'', docstatus := 0, islocal := True\<rparr>"
        demo_store]
    by (simp add: demo_request_def)
qed

section \<open>The snapshot and the guard\<close>

lemma snapshot_not_read:
  "get (self\<lparr>previous_workflow_state := x\<rparr>) f = get self f"
  "remove_share_permission fw (self\<lparr>previous_workflow_state := x\<rparr>) user db
     = remove_share_permission fw self user db"
  "share_and_assign fw (self\<lparr>previous_workflow_state := x\<rparr>) user td perms db
     = share_and_assign fw self user td perms db"
  by (simp_all add: get_def remove_share_permission_def remove_share_try_def
      share_and_assign_def cong: option.case_cong prod.case_cong sum.case_cong if_cong)

lemma handle_workflow_unguarded:
  "previous_workflow_state self \<noteq> Some (workflow_state self) \<Longrightarrow>
   handle_workflow fw self db = handle_workflow fw (self\<lparr>previous_workflow_state := None\<rparr>) db"
  using guard_open [of self]
  by (simp add: handle_workflow_def snapshot_not_read
      cong: option.case_cong prod.case_cong sum.case_cong if_cong)

lemma demo_dispatch:
  "handle_workflow host demo_request resaved_store =
     (Inr (),
      resaved_store\<lparr>shares := (shares resaved_store)
          ((''Book Suggestion Request'', ''BSR-0001'', ''hod@lib.in'') \<mapsto>
             \<lparr>read_perm = 1, write_perm = 0, submit_perm = 1, share_perm = 1\<rparr>),
        todos := [demo_task, other_task]\<rparr>)"
proof -
  have a: "workflow_state demo_request = Some ''Pending for HOD Approval''"
    and b: "previous_workflow_state demo_request \<noteq> Some (workflow_state demo_request)"
    and h: "hod demo_request = Some ''hod@lib.in''"
    and dt: "doctype demo_request = ''Book Suggestion Request''"
    and n: "name demo_request = ''BSR-0001''"
    by (simp_all add: demo_request_def)
  have s: "share_and_assign host demo_request (Some ''hod@lib.in'') (Some ''HOD Approval'')
        [(''read'', 1), (''write'', 0), (''submit'', 1), (''share'', 1)] resaved_store
      = (Inr (),
      resaved_store\<lparr>shares := (shares resaved_store)
          ((''Book Suggestion Request'', ''BSR-0001'', ''hod@lib.in'') \<mapsto>
             \<lparr>read_perm = 1, write_perm = 0, submit_perm = 1, share_perm = 1\<rparr>),
        todos := [demo_task, other_task]\<rparr>)"
    by (simp add: host_def share_and_assign_host dt n perm_get_def py_str_def)
       (simp add: resaved_store_def demo_store_def open_for_def demo_task_def other_task_def)
  show ?thesis
    by (simp only: hod_transition_host [OF a b] h s)
qed

text \<open>
  C10. On any host: a document with no snapshot attribute is dispatched exactly as a
  document whose snapshot differs from its state, whatever the stored state is; the
  dispatch is suppressed exactly when the snapshot exists and equals the state, and in
  every other case it is the dispatch of the document without the snapshot. A
  \<^verbatim>\<open>before_save\<close> that returns normally always leaves a snapshot, so the attribute is
  missing only when \<^verbatim>\<open>before_save\<close> did not run.
\<close>

theorem missing_snapshot_bypasses_guard:
  "(previous_workflow_state self = None \<longrightarrow>
      (\<forall>p. p \<noteq> workflow_state self \<longrightarrow>
         handle_workflow fw self db
           = handle_workflow fw (self\<lparr>previous_workflow_state := Some p\<rparr>) db))
   \<and> handle_workflow fw self db =
       (if previous_workflow_state self = Some (workflow_state self) then (Inr (), db)
        else handle_workflow fw (self\<lparr>previous_workflow_state := None\<rparr>) db)
   \<and> (fst (before_save fw self db) = Inr () \<longrightarrow>
        previous_workflow_state (snd (before_save fw self db)) \<noteq> None)"
proof (intro conjI impI allI)
  fix p
  assume "previous_workflow_state self = None" and "p \<noteq> workflow_state self"
  then show "handle_workflow fw self db
      = handle_workflow fw (self\<lparr>previous_workflow_state := Some p\<rparr>) db"
    using handle_workflow_unguarded [of "self\<lparr>previous_workflow_state := Some p\<rparr>" fw db]
      handle_workflow_unguarded [of self fw db]
    by simp
next
  show "handle_workflow fw self db =
       (if previous_workflow_state self = Some (workflow_state self) then (Inr (), db)
        else handle_workflow fw (self\<lparr>previous_workflow_state := None\<rparr>) db)"
    using handle_workflow_unguarded [of self fw db]
    by (simp add: handle_workflow_def)
next
  assume "fst (before_save fw self db) = Inr ()"
  then show "previous_workflow_state (snd (before_save fw self db)) \<noteq> None"
    by (auto simp: before_save_def split: if_splits sum.splits)
qed

text \<open>
  A request stored in the state it already has, on the reference host: after
  \<^verbatim>\<open>before_save\<close> the dispatch does nothing; without the snapshot it grants and creates
  the task although the state did not change.
\<close>

theorem missing_snapshot_bypasses_guard_witness:
  "requests resaved_store (doctype demo_request, name demo_request)
     = Some (demo_request\<lparr>previous_workflow_state := None\<rparr>)
   \<and> handle_workflow host
       (snd (before_save host (demo_request\<lparr>previous_workflow_state := None\<rparr>) resaved_store))
       resaved_store = (Inr (), resaved_store)
   \<and> handle_workflow host (demo_request\<lparr>previous_workflow_state := None\<rparr>) resaved_store =
     (Inr (),
      resaved_store\<lparr>shares := (shares resaved_store)
          ((''Book Suggestion Request'', ''BSR-0001'', ''hod@lib.in'') \<mapsto>
             \<lparr>read_perm = 1, write_perm = 0, submit_perm = 1, share_perm = 1\<rparr>),
        todos := [demo_task, other_task]\<rparr>)"
proof -
  let ?d = "demo_request\<lparr>previous_workflow_state := None\<rparr>"
  have 1: "requests resaved_store (doctype demo_request, name demo_request) = Some ?d"
    by (simp add: resaved_store_def demo_request_def)
  have bs: "snd (before_save host ?d resaved_store)
      = ?d\<lparr>previous_workflow_state := Some (workflow_state ?d)\<rparr>"
    using 1 by (simp add: before_save_def host_def host_of_def host_get_doc_def)
       (simp add: demo_request_def)
  have 2: "handle_workflow host (snd (before_save host ?d resaved_store)) resaved_store
      = (Inr (), resaved_store)"
    using missing_snapshot_bypasses_guard
      [of "snd (before_save host ?d resaved_store)" host resaved_store]
    by (simp add: bs)
  have a: "previous_workflow_state ?d = None" by simp
  have b: "Some ''Pending for Duplication Check'' \<noteq> workflow_state ?d"
    by (simp add: demo_request_def)
  have c: "?d\<lparr>previous_workflow_state := Some (Some ''Pending for Duplication Check'')\<rparr>
      = demo_request"
    by (simp add: demo_request_def)
  from missing_snapshot_bypasses_guard [of ?d host resaved_store] a b
  have "handle_workflow host ?d resaved_store
      = handle_workflow host
          (?d\<lparr>previous_workflow_state := Some (Some ''Pending for Duplication Check'')\<rparr>)
          resaved_store"
    by blast
  then have 3: "handle_workflow host ?d resaved_store = handle_workflow host demo_request resaved_store"
    by (simp only: c)
  show ?thesis
    using 1 2 3 by (simp only: demo_dispatch)
qed

end
